theory Spec2Isabelle
  imports Main "HOL-Library.AList"
begin

section \<open>JavaScript values as the code reads them\<close>

text \<open>
  A decoded frame or response body is a JSON value. Numbers are modelled as integers.
  An absent property (\<^verbatim>\<open>undefined\<close>) is \<open>None\<close> of \<open>json option\<close>.
\<close>

datatype json =
    JNull
  | JBool bool
  | JNum int
  | JStr string
  | JArr "json list"
  | JObj "(string \<times> json) list"

record js_error =
  name :: string
  message :: string

definition TypeError :: "string \<Rightarrow> js_error" where
  "TypeError m = \<lparr>name = ''TypeError'', message = m\<rparr>"

definition SyntaxError :: "string \<Rightarrow> js_error" where
  "SyntaxError m = \<lparr>name = ''SyntaxError'', message = m\<rparr>"

definition Error :: "string \<Rightarrow> js_error" where
  \<comment> \<open>\<^verbatim>\<open>new Error(msg)\<close>\<close>
  "Error m = \<lparr>name = ''Error'', message = m\<rparr>"

definition digit_char :: "nat \<Rightarrow> char" where
  "digit_char d = ''0123456789'' ! d"

function show_nat :: "nat \<Rightarrow> string" where
  "show_nat n = (if n < 10 then [digit_char n] else show_nat (n div 10) @ [digit_char (n mod 10)])"
  by pat_completeness auto
termination
  by (relation "measure id") auto

definition show_int :: "int \<Rightarrow> string" where
  "show_int i = (if i < 0 then CHR ''-'' # show_nat (nat (- i)) else show_nat (nat i))"

fun join_commas :: "string list \<Rightarrow> string" where
  "join_commas [] = []"
| "join_commas [s] = s"
| "join_commas (s # t # ss) = s @ '','' @ join_commas (t # ss)"

text \<open>\<^verbatim>\<open>String(v)\<close>: the conversion behind template literals, \<^verbatim>\<open>new Error(v)\<close> and
  computed property keys. \<^verbatim>\<open>Array.prototype.join\<close> prints a null element as the empty string.\<close>

fun js_to_string :: "json \<Rightarrow> string" where
  "js_to_string JNull = ''null''"
| "js_to_string (JBool b) = (if b then ''true'' else ''false'')"
| "js_to_string (JNum n) = show_int n"
| "js_to_string (JStr s) = s"
| "js_to_string (JArr xs) = join_commas (map (\<lambda>x. if x = JNull then [] else js_to_string x) xs)"
| "js_to_string (JObj kvs) = ''[object Object]''"


fun js_truthy :: "json option \<Rightarrow> bool" where
  "js_truthy None = False"
| "js_truthy (Some JNull) = False"
| "js_truthy (Some (JBool b)) = b"
| "js_truthy (Some (JNum n)) = (n \<noteq> 0)"
| "js_truthy (Some (JStr s)) = (s \<noteq> [])"
| "js_truthy (Some (JArr xs)) = True"
| "js_truthy (Some (JObj kvs)) = True"

text \<open>
  The member access \<^verbatim>\<open>v.k\<close> for the property names the code reads
  (\<^verbatim>\<open>download_id\<close>, \<^verbatim>\<open>progress\<close>, \<^verbatim>\<open>status\<close>, \<^verbatim>\<open>message\<close>, \<^verbatim>\<open>detail\<close>), none of which
  is a built-in property of strings, numbers, booleans or arrays: reading from \<^verbatim>\<open>null\<close>
  throws a TypeError, an object gives its own property (the last of duplicate keys, as
  \<^verbatim>\<open>JSON.parse\<close> keeps it), every other value gives \<^verbatim>\<open>undefined\<close>.
\<close>

fun get_prop :: "json \<Rightarrow> string \<Rightarrow> js_error + json option" where
  "get_prop JNull k =
     Inl (TypeError (''Cannot read properties of null (reading '' @ [CHR 0x27] @ k @ [CHR 0x27] @ '')''))"
| "get_prop (JObj kvs) k = Inr (map_of (rev kvs) k)"
| "get_prop v k = Inr None"

section \<open>The reconnecting hook \<^verbatim>\<open>useWebSocket\<close>: progress map\<close>

record progress_entry =
  downloadId :: "json option"
  progress :: "json option"
  status :: "json option"
  message_field :: "json option"
  timestamp :: nat

text \<open>The progress object: its properties in insertion order, one per key.\<close>

type_synonym progress_map = "(string \<times> progress_entry) list"



definition getProgress :: "progress_map \<Rightarrow> string \<Rightarrow> progress_entry option" where
  "getProgress progress_state downloadId_key = map_of progress_state downloadId_key"

definition clearProgress :: "string \<Rightarrow> progress_map \<Rightarrow> progress_map" where
  "clearProgress downloadId_key prev = AList.delete downloadId_key prev"

section \<open>Workflow events and the per-video progress view\<close>

text \<open>
  A video entry of the progress views. \<open>current_stage\<close> is \<open>None\<close> for \<^verbatim>\<open>null\<close> or an absent
  property; \<open>stages\<close> is \<open>None\<close> when the entry has no \<^verbatim>\<open>stages\<close> object, otherwise the object's
  properties in insertion order.
\<close>

record video =
  title :: string
  video_status :: string
  current_stage :: "string option"
  stages :: "(string \<times> string) list option"
  video_error :: "string option"

text \<open>A frame of the workflow event stream, \<^verbatim>\<open>{ type, data }\<close>, with the fields of \<^verbatim>\<open>data\<close>
  that the two views read.\<close>

record event_data =
  execution_id :: int
  video_index :: int
  stage :: string
  event_status :: string
  videos :: "video list"
  event_error :: "string option"
  event_timestamp :: string
  event_message :: string

record ws_message =
  mtype :: string
  mdata :: event_data

text \<open>\<^verbatim>\<open>prev.map((v, idx) => ...)\<close>\<close>

definition map_idx :: "('a \<Rightarrow> nat \<Rightarrow> 'b) \<Rightarrow> 'a list \<Rightarrow> 'b list" where
  "map_idx f xs = map (\<lambda>(idx, v). f v idx) (zip [0..<length xs] xs)"

subsection \<open>\<^verbatim>\<open>WorkflowProgress\<close>\<close>

record wp_state =
  wp_videos :: "video list"
  wp_loadData_calls :: nat

text \<open>
  The body of the message effect after the \<^verbatim>\<open>if (!lastMessage) return\<close> guard. \<open>viewed\<close> is
  \<^verbatim>\<open>parseInt(executionId)\<close>, with \<open>None\<close> for \<^verbatim>\<open>NaN\<close> (which is \<^verbatim>\<open>===\<close> to nothing).
\<close>

definition wp_dispatch :: "int option \<Rightarrow> ws_message \<Rightarrow> wp_state \<Rightarrow> wp_state" where
  "wp_dispatch viewed msg st =
     (let type = mtype msg; data = mdata msg;
          same_execution = (Some (execution_id data) = viewed)
      in
      if type = ''videos_scanned'' then
        (if same_execution then st\<lparr>wp_videos := videos data\<rparr> else st)
      else if type = ''video_started'' then
        (if same_execution then
           st\<lparr>wp_videos := map_idx (\<lambda>v idx.
                 if int idx = video_index data then v\<lparr>video_status := ''processing''\<rparr> else v)
               (wp_videos st)\<rparr>
         else st)
      else if type = ''video_stage_update'' then
        (if same_execution then
           st\<lparr>wp_videos := map_idx (\<lambda>v idx.
                 if int idx = video_index data
                 then v\<lparr>current_stage :=
                          (if event_status data = ''running'' then Some (stage data) else current_stage v),
                        stages := Some (AList.update (stage data) (event_status data)
                          (case stages v of None \<Rightarrow> [] | Some al \<Rightarrow> al))\<rparr>
                 else v)
               (wp_videos st)\<rparr>
         else st)
      else if type = ''video_completed'' then
        (if same_execution then
           st\<lparr>wp_videos := map_idx (\<lambda>v idx.
                 if int idx = video_index data
                 then v\<lparr>video_status := ''completed'', current_stage := None\<rparr>
                 else v)
               (wp_videos st)\<rparr>
         else st)
      else if type = ''video_failed'' then
        (if same_execution then
           st\<lparr>wp_videos := map_idx (\<lambda>v idx.
                 if int idx = video_index data
                 then v\<lparr>video_status := ''failed'', video_error := event_error data\<rparr>
                 else v)
               (wp_videos st)\<rparr>
         else st)
      else if type = ''workflow_completed'' \<or> type = ''workflow_failed'' then
        (if same_execution then st\<lparr>wp_loadData_calls := Suc (wp_loadData_calls st)\<rparr> else st)
      else st)"

definition wp_message_effect :: "int option \<Rightarrow> ws_message option \<Rightarrow> wp_state \<Rightarrow> wp_state" where
  "wp_message_effect viewed lastMessage st =
     (case lastMessage of None \<Rightarrow> st | Some msg \<Rightarrow> wp_dispatch viewed msg st)"

subsection \<open>\<^verbatim>\<open>WorkflowExecutionDetails\<close>\<close>

record execution =
  execution_log :: "string list option"

record ed_state =
  ed_execution :: "execution option"
  scannedVideos :: "video list"
  fetchExecutionDetails_calls :: nat

text \<open>\<^verbatim>\<open>const updated = [...prev]; if (updated[i]) { ... updated[i] ... }\<close>: the element exists,
  and is an object, exactly for \<open>0 \<le> i < length prev\<close>. In \<^verbatim>\<open>message.data.videos || []\<close> the
  left operand is an array, which is truthy also when empty.\<close>

definition update_at :: "int \<Rightarrow> (video \<Rightarrow> video) \<Rightarrow> video list \<Rightarrow> video list" where
  "update_at i f prev =
     (if 0 \<le> i \<and> nat i < length prev then prev[nat i := f (prev ! nat i)] else prev)"

definition ed_onmessage :: "ws_message \<Rightarrow> ed_state \<Rightarrow> ed_state" where
  "ed_onmessage msg st =
     (let type = mtype msg; data = mdata msg
      in
      if type = ''log'' then
        (case ed_execution st of
           None \<Rightarrow> st
         | Some prev \<Rightarrow>
             let logEntry = ''['' @ event_timestamp data @ ''] '' @ event_message data
             in st\<lparr>ed_execution := Some (prev\<lparr>execution_log :=
                   Some ((case execution_log prev of None \<Rightarrow> [] | Some l \<Rightarrow> l) @ [logEntry])\<rparr>)\<rparr>)
      else if type = ''videos_scanned'' then
        st\<lparr>scannedVideos := videos data\<rparr>
      else if type = ''video_started'' then
        st\<lparr>scannedVideos := update_at (video_index data)
              (\<lambda>v. v\<lparr>video_status := ''processing''\<rparr>) (scannedVideos st)\<rparr>
      else if type = ''video_stage_update'' then
        st\<lparr>scannedVideos := update_at (video_index data)
              (\<lambda>v. v\<lparr>current_stage := Some (stage data),
                     stages := (case stages v of
                                  None \<Rightarrow> None
                                | Some al \<Rightarrow> Some (AList.update (stage data) (event_status data) al))\<rparr>)
              (scannedVideos st)\<rparr>
      else if type = ''video_completed'' then
        st\<lparr>scannedVideos := update_at (video_index data)
              (\<lambda>v. v\<lparr>video_status := ''completed'', current_stage := None\<rparr>) (scannedVideos st)\<rparr>
      else if type = ''video_failed'' then
        st\<lparr>scannedVideos := update_at (video_index data)
              (\<lambda>v. v\<lparr>video_status := ''failed'', video_error := event_error data\<rparr>) (scannedVideos st)\<rparr>
      else if type = ''workflow_completed'' \<or> type = ''workflow_failed'' then
        st\<lparr>fetchExecutionDetails_calls := Suc (fetchExecutionDetails_calls st)\<rparr>
      else st)"

section \<open>The public value of \<^verbatim>\<open>useWebSocket\<close>\<close>

text \<open>The object literal returned by the hook, as its list of properties, and the
  destructuring \<^verbatim>\<open>const { lastMessage } = useWebSocket()\<close> of \<^verbatim>\<open>WorkflowProgress\<close>: a property
  the object does not have reads as \<^verbatim>\<open>undefined\<close>.\<close>

datatype hook_member =
    MFlag bool
  | MProgressMap progress_map
  | MGetProgress "string \<Rightarrow> progress_entry option"
  | MClearProgress "string \<Rightarrow> progress_map \<Rightarrow> progress_map"
  | MMessage ws_message

definition useWebSocket_return :: "bool \<Rightarrow> progress_map \<Rightarrow> (string \<times> hook_member) list" where
  "useWebSocket_return isConnected_state progress_state =
     [(''isConnected'', MFlag isConnected_state),
      (''progress'', MProgressMap progress_state),
      (''getProgress'', MGetProgress (getProgress progress_state)),
      (''clearProgress'', MClearProgress clearProgress)]"

definition destructure_lastMessage :: "(string \<times> hook_member) list \<Rightarrow> ws_message option" where
  "destructure_lastMessage obj =
     (case map_of obj ''lastMessage'' of Some (MMessage m) \<Rightarrow> Some m | _ \<Rightarrow> None)"

section \<open>The HTTP client: \<^verbatim>\<open>APIClient.request\<close>\<close>

record response =
  resp_status :: nat
  statusText :: string
  content_type :: "string option"  \<comment> \<open>\<^verbatim>\<open>response.headers.get("content-type")\<close>, \<open>None\<close> for null\<close>
  body_json :: "json option"      \<comment> \<open>what \<^verbatim>\<open>response.json()\<close> resolves to, \<open>None\<close> when it rejects\<close>
  body_raw :: string              \<comment> \<open>the bytes behind \<^verbatim>\<open>response.blob()\<close>\<close>

text \<open>What one call of \<^verbatim>\<open>fetch\<close> does: it resolves with a response or rejects with an
  error after some milliseconds, or it never settles.\<close>

datatype fetch_outcome =
    Responds nat response
  | Rejects nat js_error
  | NeverSettles

datatype payload = PJson json | PBlob string

datatype request_result =
    Returns payload
  | Throws js_error
  | ReturnsUndefined
  | NeverReturns

datatype action = Fetched nat | Slept nat

record request_options =
  timeout :: "nat option"
  retries :: "int option"

fun is_prefix :: "string \<Rightarrow> string \<Rightarrow> bool" where
  "is_prefix [] ys = True"
| "is_prefix (x # xs) [] = False"
| "is_prefix (x # xs) (y # ys) = (x = y \<and> is_prefix xs ys)"

fun includes_str :: "string \<Rightarrow> string \<Rightarrow> bool" where
  \<comment> \<open>\<^verbatim>\<open>hay.indexOf(needle) !== -1\<close>\<close>
  "includes_str [] needle = (needle = [])"
| "includes_str (h # hs) needle = (is_prefix needle (h # hs) \<or> includes_str hs needle)"

definition response_ok :: "response \<Rightarrow> bool" where
  "response_ok r = (200 \<le> resp_status r \<and> resp_status r \<le> 299)"

definition http_message :: "response \<Rightarrow> string" where
  \<comment> \<open>\<^verbatim>\<open>`HTTP ${response.status}: ${response.statusText}`\<close>\<close>
  "http_message r = ''HTTP '' @ show_nat (resp_status r) @ '': '' @ statusText r"

text \<open>The body of the \<^verbatim>\<open>try\<close> block once \<^verbatim>\<open>fetch\<close> has resolved: \<open>Inl\<close> is the error it
  throws (all of them inside the \<^verbatim>\<open>try\<close>), \<open>Inr\<close> the value it returns.\<close>

definition handle_response :: "response \<Rightarrow> js_error + payload" where
  "handle_response r =
     (if \<not> response_ok r then
        (if 400 \<le> resp_status r \<and> resp_status r < 500 then
           (let error = (case body_json r of
                           Some j \<Rightarrow> j
                         | None \<Rightarrow> JObj [(''detail'', JStr (statusText r))])
            in case get_prop error ''detail'' of
                 Inl e \<Rightarrow> Inl e
               | Inr None \<Rightarrow> Inl (Error (http_message r))
               | Inr (Some d) \<Rightarrow>
                   Inl (Error (if js_truthy (Some d) then js_to_string d else http_message r)))
         else Inl (Error (http_message r)))
      else if (case content_type r of
                 None \<Rightarrow> False
               | Some ct \<Rightarrow> ct \<noteq> [] \<and> includes_str ct ''application/json'') then
        (case body_json r of
           None \<Rightarrow> Inl (SyntaxError ''Unexpected token'')
         | Some data \<Rightarrow> Inr (PJson data))
      else Inr (PBlob (body_raw r)))"

definition settle :: "fetch_outcome \<Rightarrow> (nat \<times> (js_error + payload)) option" where
  "settle out =
     (case out of
        NeverSettles \<Rightarrow> None
      | Rejects ms e \<Rightarrow> Some (ms, Inl e)
      | Responds ms r \<Rightarrow> Some (ms, handle_response r))"

text \<open>
  The \<^verbatim>\<open>while (attempt <= maxRetries)\<close> loop. \<open>fetch i\<close> is the outcome of the call of
  \<^verbatim>\<open>fetch\<close> made after \<open>i\<close> failed attempts. The \<^verbatim>\<open>catch\<close> receives every error thrown in the
  \<^verbatim>\<open>try\<close>, increments \<open>attempt\<close>, rethrows when \<open>attempt > maxRetries\<close> and otherwise sleeps
  \<open>1000 * 2 ^ (attempt - 1)\<close> ms. The result comes with the awaited fetches and sleeps in order.
\<close>

function request_loop ::
  "(nat \<Rightarrow> fetch_outcome) \<Rightarrow> int \<Rightarrow> int \<Rightarrow> request_result \<times> action list" where
  "request_loop fetch max_retries attempt =
     (if attempt \<le> max_retries then
        (case settle (fetch (nat attempt)) of
           None \<Rightarrow> (NeverReturns, [])
         | Some (ms, Inr data) \<Rightarrow> (Returns data, [Fetched ms])
         | Some (ms, Inl error) \<Rightarrow>
             (if attempt + 1 > max_retries then (Throws error, [Fetched ms])
              else (case request_loop fetch max_retries (attempt + 1) of
                      (res, acts) \<Rightarrow>
                        (res, Fetched ms # Slept (1000 * 2 ^ nat (attempt + 1 - 1)) # acts))))
      else (ReturnsUndefined, []))"
  by pat_completeness auto
termination
  by (relation "measure (\<lambda>(fetch, max_retries, attempt). nat (max_retries + 1 - attempt))") auto

definition request_timeout :: "request_options \<Rightarrow> nat" where
  \<comment> \<open>\<^verbatim>\<open>options.timeout || 10000\<close>; read only by the log message of the \<^verbatim>\<open>catch\<close> block\<close>
  "request_timeout options =
     (case timeout options of None \<Rightarrow> 10000 | Some t \<Rightarrow> if t = 0 then 10000 else t)"

definition maxRetries :: "request_options \<Rightarrow> int" where
  \<comment> \<open>\<^verbatim>\<open>options.retries || 0\<close>\<close>
  "maxRetries options = (case retries options of None \<Rightarrow> 0 | Some r \<Rightarrow> r)"

definition request :: "(nat \<Rightarrow> fetch_outcome) \<Rightarrow> request_options \<Rightarrow> request_result \<times> action list" where
  "request fetch options = request_loop fetch (maxRetries options) 0"





section \<open>The reconnecting hook \<^verbatim>\<open>useWebSocket\<close>: connection life cycle\<close>

text \<open>
  The hook's refs and the browser objects they point to. \<open>sockets\<close> holds the ready state of
  every \<^verbatim>\<open>WebSocket\<close> the hook has created, in creation order; each carries the same four
  handlers. \<open>timers\<close> holds the pending \<^verbatim>\<open>setTimeout\<close> callbacks (all of them call
  \<^verbatim>\<open>connect\<close>) as pairs of timer id and delay in ms; timer ids start at 1.
\<close>

datatype ready_state = CONNECTING | OPEN | CLOSING | CLOSED

record hook_conn =
  isConnected :: bool
  mounted :: bool
  sockets :: "ready_state list"
  wsRef :: "nat option"
  reconnectTimeoutRef :: "nat option"
  timers :: "(nat \<times> nat) list"
  next_timer_id :: nat

definition RECONNECT_DELAY :: nat where
  "RECONNECT_DELAY = 3000"

definition hook_initial :: hook_conn where
  "hook_initial = \<lparr>isConnected = False, mounted = False, sockets = [], wsRef = None,
     reconnectTimeoutRef = None, timers = [], next_timer_id = 1\<rparr>"

definition setIsConnected :: "bool \<Rightarrow> hook_conn \<Rightarrow> hook_conn" where
  \<comment> \<open>a state setter of an unmounted component has no effect\<close>
  "setIsConnected b h = (if mounted h then h\<lparr>isConnected := b\<rparr> else h)"

definition schedule_reconnect :: "hook_conn \<Rightarrow> hook_conn" where
  \<comment> \<open>\<^verbatim>\<open>reconnectTimeoutRef.current = setTimeout(connect, RECONNECT_DELAY)\<close>\<close>
  "schedule_reconnect h =
     h\<lparr>timers := timers h @ [(next_timer_id h, RECONNECT_DELAY)],
       reconnectTimeoutRef := Some (next_timer_id h),
       next_timer_id := Suc (next_timer_id h)\<rparr>"

definition connect :: "bool \<Rightarrow> hook_conn \<Rightarrow> hook_conn" where
  \<comment> \<open>\<open>ctor_throws\<close>: whether \<^verbatim>\<open>new WebSocket(WS_URL)\<close> throws\<close>
  "connect ctor_throws h =
     (if ctor_throws then schedule_reconnect h
      else h\<lparr>sockets := sockets h @ [CONNECTING], wsRef := Some (length (sockets h))\<rparr>)"

definition onopen :: "hook_conn \<Rightarrow> hook_conn" where
  "onopen h = setIsConnected True h"

definition onclose :: "hook_conn \<Rightarrow> hook_conn" where
  "onclose h = schedule_reconnect (setIsConnected False h)"

definition clearTimeout :: "nat \<Rightarrow> hook_conn \<Rightarrow> hook_conn" where
  "clearTimeout t h = h\<lparr>timers := filter (\<lambda>(i, d). i \<noteq> t) (timers h)\<rparr>"

definition socket_close :: "nat \<Rightarrow> hook_conn \<Rightarrow> hook_conn" where
  \<comment> \<open>\<^verbatim>\<open>ws.close()\<close>: a connecting or open socket starts closing (its close event follows);
      on a closing or closed socket the call does nothing\<close>
  "socket_close i h =
     (if i < length (sockets h) \<and> (sockets h ! i = CONNECTING \<or> sockets h ! i = OPEN)
      then h\<lparr>sockets := (sockets h)[i := CLOSING]\<rparr> else h)"

definition cleanup :: "hook_conn \<Rightarrow> hook_conn" where
  \<comment> \<open>the function returned by the mount effect\<close>
  "cleanup h =
     (let h1 = (case reconnectTimeoutRef h of
                  Some t \<Rightarrow> if t \<noteq> 0 then clearTimeout t h else h
                | None \<Rightarrow> h);
          h2 = (case wsRef h1 of Some i \<Rightarrow> socket_close i h1 | None \<Rightarrow> h1)
      in h2\<lparr>mounted := False\<rparr>)"

text \<open>What can happen to the hook: the component mounts or unmounts, the browser opens or
  closes one of the sockets (a close event is delivered once, to a socket not yet closed,
  whether the close came from an error, the server or \<^verbatim>\<open>close()\<close>), or a pending timer fires.\<close>

datatype hook_event =
    Mount bool
  | SocketOpens nat
  | SocketCloses nat
  | TimerFires nat bool
  | Unmount

fun hook_step :: "hook_event \<Rightarrow> hook_conn \<Rightarrow> hook_conn option" where
  "hook_step (Mount ctor_throws) h =
     (if mounted h then None else Some (connect ctor_throws (h\<lparr>mounted := True\<rparr>)))"
| "hook_step (SocketOpens i) h =
     (if i < length (sockets h) \<and> sockets h ! i = CONNECTING
      then Some (onopen (h\<lparr>sockets := (sockets h)[i := OPEN]\<rparr>)) else None)"
| "hook_step (SocketCloses i) h =
     (if i < length (sockets h) \<and> sockets h ! i \<noteq> CLOSED
      then Some (onclose (h\<lparr>sockets := (sockets h)[i := CLOSED]\<rparr>)) else None)"
| "hook_step (TimerFires t ctor_throws) h =
     (if t \<in> fst ` set (timers h)
      then Some (connect ctor_throws (h\<lparr>timers := filter (\<lambda>(i, d). i \<noteq> t) (timers h)\<rparr>))
      else None)"
| "hook_step Unmount h = (if mounted h then Some (cleanup h) else None)"

fun hook_run :: "hook_event list \<Rightarrow> hook_conn \<Rightarrow> hook_conn option" where
  "hook_run [] h = Some h"
| "hook_run (ev # evs) h = (case hook_step ev h of None \<Rightarrow> None | Some h' \<Rightarrow> hook_run evs h')"

section \<open>The workflow editor graph of \<^verbatim>\<open>WorkflowBuilder\<close>\<close>

record node =
  node_id :: string
  node_type :: string
  position :: "int \<times> int"
  label :: string
  config :: "(string \<times> string) list"
  isStart :: "bool option"   \<comment> \<open>\<open>None\<close>: \<^verbatim>\<open>data.isStart\<close> not set yet\<close>
  isActive :: "bool option"

record edge =
  edge_id :: string
  source :: string
  target :: string
  sourceHandle :: "string option"
  targetHandle :: "string option"

text \<open>The connection handed to \<^verbatim>\<open>onConnect\<close>.\<close>

record connection =
  conn_source :: string
  conn_target :: string
  conn_sourceHandle :: "string option"
  conn_targetHandle :: "string option"

record graph =
  nodes :: "node list"
  edges :: "edge list"
  selectedNode :: "node option"

definition initial_graph :: graph where
  "initial_graph = \<lparr>nodes = [], edges = [], selectedNode = None\<rparr>"

subsection \<open>The two library functions the editor calls\<close>

text \<open>
  \<^verbatim>\<open>addEdge\<close> and \<^verbatim>\<open>getIncomers\<close> are imported from the graph-canvas library
  (\<^verbatim>\<open>@xyflow/react\<close>), which is not part of the repository. They are modelled after the
  library: \<^verbatim>\<open>addEdge\<close> returns the edges unchanged when the connection lacks a source or a
  target or when an edge with the same endpoints and handles exists, and otherwise appends an
  edge with a generated id; \<^verbatim>\<open>getIncomers\<close> returns the nodes that are the source of an edge
  whose target is the given node.
\<close>

definition handle_str :: "string option \<Rightarrow> string" where
  "handle_str h = (case h of None \<Rightarrow> [] | Some s \<Rightarrow> s)"

definition getEdgeId :: "connection \<Rightarrow> string" where
  "getEdgeId c = ''xy-edge__'' @ conn_source c @ handle_str (conn_sourceHandle c) @ ''-''
                 @ conn_target c @ handle_str (conn_targetHandle c)"

definition same_handle :: "string option \<Rightarrow> string option \<Rightarrow> bool" where
  "same_handle a b = (a = b \<or> (handle_str a = [] \<and> handle_str b = []))"

definition connectionExists :: "edge \<Rightarrow> edge list \<Rightarrow> bool" where
  "connectionExists e eds =
     list_ex (\<lambda>el. source el = source e \<and> target el = target e
                  \<and> same_handle (sourceHandle el) (sourceHandle e)
                  \<and> same_handle (targetHandle el) (targetHandle e)) eds"

definition addEdge :: "connection \<Rightarrow> edge list \<Rightarrow> edge list" where
  "addEdge params eds =
     (if conn_source params = [] \<or> conn_target params = [] then eds
      else
        (let e = \<lparr>edge_id = getEdgeId params, source = conn_source params,
                  target = conn_target params, sourceHandle = conn_sourceHandle params,
                  targetHandle = conn_targetHandle params\<rparr>
         in if connectionExists e eds then eds else eds @ [e]))"

definition getIncomers :: "node \<Rightarrow> node list \<Rightarrow> edge list \<Rightarrow> node list" where
  "getIncomers n nds eds =
     (if node_id n = [] then []
      else
        (let incomersIds = map source (filter (\<lambda>e. target e = node_id n) eds)
         in filter (\<lambda>m. node_id m \<in> set incomersIds) nds))"

subsection \<open>The editor's operations\<close>

definition capitalize :: "string \<Rightarrow> string" where
  \<comment> \<open>\<^verbatim>\<open>type.charAt(0).toUpperCase() + type.slice(1)\<close>, for the ASCII letters\<close>
  "capitalize s =
     (case s of
        [] \<Rightarrow> []
      | c # cs \<Rightarrow>
          (if (97::nat) \<le> of_char c \<and> of_char c \<le> (122::nat)
           then char_of (of_char c - (32::nat)) # cs else c # cs))"

definition newNode :: "string \<Rightarrow> int \<times> int \<Rightarrow> nat \<Rightarrow> node" where
  \<comment> \<open>\<open>now\<close> is \<^verbatim>\<open>Date.now()\<close>\<close>
  "newNode type pos now =
     \<lparr>node_id = type @ ''-'' @ show_nat now, node_type = type, position = pos,
      label = capitalize type, config = [], isStart = None, isActive = None\<rparr>"

definition onDrop :: "string \<Rightarrow> int \<times> int \<Rightarrow> nat \<Rightarrow> graph \<Rightarrow> graph" where
  "onDrop type pos now g =
     (if type = [] then g else g\<lparr>nodes := nodes g @ [newNode type pos now]\<rparr>)"

definition palette_add :: "string \<Rightarrow> nat \<Rightarrow> graph \<Rightarrow> graph" where
  \<comment> \<open>the click handler of a palette button\<close>
  "palette_add type now g =
     g\<lparr>nodes := nodes g @ [newNode type (250, int (length (nodes g)) * 100 + 50) now]\<rparr>"

definition onConnect :: "connection \<Rightarrow> graph \<Rightarrow> graph" where
  "onConnect params g = g\<lparr>edges := addEdge params (edges g)\<rparr>"

definition handleDeleteNode :: "string \<Rightarrow> graph \<Rightarrow> graph" where
  "handleDeleteNode nodeId g =
     g\<lparr>nodes := filter (\<lambda>n. node_id n \<noteq> nodeId) (nodes g),
       edges := filter (\<lambda>e. source e \<noteq> nodeId \<and> target e \<noteq> nodeId) (edges g),
       selectedNode := (case selectedNode g of
                          None \<Rightarrow> None
                        | Some sel \<Rightarrow> if node_id sel = nodeId then None else Some sel)\<rparr>"

text \<open>The effect with dependencies \<^verbatim>\<open>[edges, setNodes, nodes.length]\<close>.\<close>

definition recompute_isStart :: "graph \<Rightarrow> graph" where
  "recompute_isStart g =
     g\<lparr>nodes := map (\<lambda>n.
           let incoming = getIncomers n (nodes g) (edges g);
               start = (length incoming = 0)
           in if isStart n \<noteq> Some start then n\<lparr>isStart := Some start\<rparr> else n)
         (nodes g)\<rparr>"

datatype editor_op =
    Drop string "int \<times> int" nat
  | PaletteAdd string nat
  | Connect connection
  | DeleteNode string

fun apply_op :: "editor_op \<Rightarrow> graph \<Rightarrow> graph" where
  "apply_op (Drop type pos now) g = onDrop type pos now g"
| "apply_op (PaletteAdd type now) g = palette_add type now g"
| "apply_op (Connect params) g = onConnect params g"
| "apply_op (DeleteNode nodeId) g = handleDeleteNode nodeId g"

text \<open>
  One user operation followed by the effect. Every operation that changes the node count
  or the edge array triggers the effect; after an operation that changes neither, the nodes
  and edges are those the previous run of the effect left, on which the effect changes
  nothing (\<open>recompute_isStart_idem\<close>), so running it after every operation gives the same
  graph.
\<close>

definition editor_step :: "editor_op \<Rightarrow> graph \<Rightarrow> graph" where
  "editor_step op g = recompute_isStart (apply_op op g)"

fun run_ops :: "editor_op list \<Rightarrow> graph \<Rightarrow> graph" where
  "run_ops [] g = g"
| "run_ops (op # ops) g = run_ops ops (editor_step op g)"

text \<open>The two invariants of the graph.\<close>

definition node_ids :: "graph \<Rightarrow> string set" where
  "node_ids g = node_id ` set (nodes g)"

definition no_dangling_edges :: "graph \<Rightarrow> bool" where
  "no_dangling_edges g =
     list_all (\<lambda>e. source e \<in> node_ids g \<and> target e \<in> node_ids g) (edges g)"

definition isStart_consistent :: "graph \<Rightarrow> bool" where
  "isStart_consistent g =
     list_all (\<lambda>n. isStart n = Some (list_all (\<lambda>e. target e \<noteq> node_id n) (edges g))) (nodes g)"

definition endpoints_nonempty :: "graph \<Rightarrow> bool" where
  \<comment> \<open>what \<^verbatim>\<open>addEdge\<close> guarantees of every edge it adds\<close>
  "endpoints_nonempty g = list_all (\<lambda>e. source e \<noteq> [] \<and> target e \<noteq> []) (edges g)"

text \<open>A connection drawn on the canvas joins two rendered nodes: its endpoints are ids of
  nodes present when \<^verbatim>\<open>onConnect\<close> is called.\<close>

fun connects_present :: "editor_op list \<Rightarrow> graph \<Rightarrow> bool" where
  "connects_present [] g = True"
| "connects_present (Connect params # ops) g =
     (conn_source params \<in> node_ids g \<and> conn_target params \<in> node_ids g
      \<and> connects_present ops (editor_step (Connect params) g))"
| "connects_present (op # ops) g = connects_present ops (editor_step op g)"

section \<open>Concrete scenarios\<close>


definition video_burning :: video where
  "video_burning = \<lparr>title = ''clip'', video_status = ''processing'', current_stage = Some ''burn'',
     stages = Some [(''download'', ''running''), (''burn'', ''running'')], video_error = None\<rparr>"

definition video_without_stages :: video where
  "video_without_stages = \<lparr>title = ''clip'', video_status = ''pending'', current_stage = None,
     stages = None, video_error = None\<rparr>"

definition download_completed_event :: ws_message where
  \<comment> \<open>\<^verbatim>\<open>video_stage_update\<close> of execution 42, index 0, stage download, status completed\<close>
  "download_completed_event = \<lparr>mtype = ''video_stage_update'',
     mdata = \<lparr>execution_id = 42, video_index = 0, stage = ''download'',
              event_status = ''completed'', videos = [], event_error = None,
              event_timestamp = [], event_message = []\<rparr>\<rparr>"

definition scanned_for_99 :: ws_message where
  \<comment> \<open>\<^verbatim>\<open>videos_scanned\<close> of execution 99\<close>
  "scanned_for_99 = \<lparr>mtype = ''videos_scanned'',
     mdata = \<lparr>execution_id = 99, video_index = 0, stage = [], event_status = [],
              videos = [video_without_stages], event_error = None,
              event_timestamp = [], event_message = []\<rparr>\<rparr>"

definition viewing_42 :: ed_state where
  \<comment> \<open>the details view of execution 42 with one video\<close>
  "viewing_42 = \<lparr>ed_execution = Some \<lparr>execution_log = Some []\<rparr>,
     scannedVideos = [video_burning], fetchExecutionDetails_calls = 1\<rparr>"

definition progress_42 :: wp_state where
  "progress_42 = \<lparr>wp_videos = [video_burning], wp_loadData_calls = 1\<rparr>"

definition not_found_404 :: response where
  "not_found_404 = \<lparr>resp_status = 404, statusText = ''Not Found'',
     content_type = Some ''application/json'',
     body_json = Some (JObj [(''detail'', JStr ''not found'')]), body_raw = []\<rparr>"


definition ok_200 :: response where
  "ok_200 = \<lparr>resp_status = 200, statusText = ''OK'', content_type = Some ''application/json'',
     body_json = Some (JObj [(''ok'', JBool True)]), body_raw = []\<rparr>"

definition always_404 :: "nat \<Rightarrow> fetch_outcome" where
  "always_404 i = Responds 5 not_found_404"


definition slow_200 :: "nat \<Rightarrow> fetch_outcome" where
  \<comment> \<open>the server answers after one minute\<close>
  "slow_200 i = Responds 60000 ok_200"

definition never_settles :: "nat \<Rightarrow> fetch_outcome" where
  "never_settles i = NeverSettles"

definition unmount_while_open :: "hook_event list" where
  "unmount_while_open = [Mount False, SocketOpens 0, Unmount, SocketCloses 0]"

definition connect_a_b :: connection where
  "connect_a_b = \<lparr>conn_source = ''a'', conn_target = ''b'',
     conn_sourceHandle = None, conn_targetHandle = None\<rparr>"

definition scan_then_download :: "editor_op list" where
  "scan_then_download =
     [PaletteAdd ''scan'' 1, PaletteAdd ''download'' 2,
      Connect \<lparr>conn_source = ''scan-1'', conn_target = ''download-2'',
               conn_sourceHandle = None, conn_targetHandle = None\<rparr>,
      Drop ''burn'' (10, 20) 3,
      Connect \<lparr>conn_source = ''download-2'', conn_target = ''burn-3'',
               conn_sourceHandle = None, conn_targetHandle = None\<rparr>,
      DeleteNode ''scan-1'']"

definition failed_at_5 :: ws_message where
  \<comment> \<open>\<^verbatim>\<open>video_failed\<close> of execution 42 for index 5\<close>
  "failed_at_5 = \<lparr>mtype = ''video_failed'',
     mdata = \<lparr>execution_id = 42, video_index = 5, stage = [], event_status = [],
              videos = [], event_error = Some ''boom'',
              event_timestamp = [], event_message = []\<rparr>\<rparr>"


definition retry_twice :: request_options where
  "retry_twice = \<lparr>timeout = None, retries = Some 2\<rparr>"

definition ten_second_timeout :: request_options where
  "ten_second_timeout = \<lparr>timeout = Some 10000, retries = None\<rparr>"

section \<open>Properties\<close>

subsection \<open>The hook's progress map\<close>






subsection \<open>The hook's public value\<close>

text \<open>
  C1. The object \<^verbatim>\<open>useWebSocket\<close> returns has the four properties \<^verbatim>\<open>isConnected\<close>,
  \<^verbatim>\<open>progress\<close>, \<^verbatim>\<open>getProgress\<close> and \<^verbatim>\<open>clearProgress\<close> and no \<^verbatim>\<open>lastMessage\<close>: what
  \<^verbatim>\<open>WorkflowProgress\<close> destructures is \<^verbatim>\<open>undefined\<close> in every state of the hook, so its message
  effect returns at the guard and never dispatches an event.
\<close>

theorem useWebSocket_return_has_no_lastMessage:
  "map fst (useWebSocket_return c p) = [''isConnected'', ''progress'', ''getProgress'', ''clearProgress'']
   \<and> destructure_lastMessage (useWebSocket_return c p) = None
   \<and> wp_message_effect viewed (destructure_lastMessage (useWebSocket_return c p)) st = st"
  by (simp add: useWebSocket_return_def destructure_lastMessage_def wp_message_effect_def)

subsection \<open>Per-video events in the two progress views\<close>

lemma map_idx_update_at:
  "map_idx (\<lambda>v idx. if int idx = i then f v else v) xs = update_at i f xs"
proof (rule nth_equalityI)
  show "length (map_idx (\<lambda>v idx. if int idx = i then f v else v) xs) = length (update_at i f xs)"
    by (simp add: map_idx_def update_at_def)
next
  fix j
  assume "j < length (map_idx (\<lambda>v idx. if int idx = i then f v else v) xs)"
  then have j: "j < length xs"
    by (simp add: map_idx_def)
  then show "map_idx (\<lambda>v idx. if int idx = i then f v else v) xs ! j = update_at i f xs ! j"
    by (auto simp: map_idx_def update_at_def nth_list_update)
qed

lemma update_at_out_of_range: "int (length xs) \<le> i \<Longrightarrow> update_at i f xs = xs"
proof -
  assume "int (length xs) \<le> i"
  then have "\<not> nat i < length xs" by linarith
  then show ?thesis by (simp add: update_at_def)
qed

text \<open>
  C9. A \<^verbatim>\<open>video_started\<close>, \<^verbatim>\<open>video_stage_update\<close>, \<^verbatim>\<open>video_completed\<close> or \<^verbatim>\<open>video_failed\<close>
  event whose \<^verbatim>\<open>video_index\<close> is at least the length of the video array leaves the array,
  and the whole state of the view, unchanged, in \<^verbatim>\<open>WorkflowProgress\<close> and in
  \<^verbatim>\<open>WorkflowExecutionDetails\<close>; neither handler has an error result.
\<close>

theorem out_of_range_video_event_is_noop:
  assumes "mtype msg \<in> {''video_started'', ''video_stage_update'', ''video_completed'', ''video_failed''}"
    and "int (length (wp_videos st)) \<le> video_index (mdata msg)"
    and "int (length (scannedVideos est)) \<le> video_index (mdata msg)"
  shows "wp_dispatch viewed msg st = st \<and> ed_onmessage msg est = est"
proof
  show "wp_dispatch viewed msg st = st"
    using assms(1,2)
    by (auto simp: wp_dispatch_def Let_def map_idx_update_at update_at_out_of_range)
  show "ed_onmessage msg est = est"
    using assms(1,3)
    by (auto simp: ed_onmessage_def Let_def update_at_out_of_range)
qed

theorem out_of_range_video_event_is_noop_witness:
  "mtype failed_at_5 \<in> {''video_started'', ''video_stage_update'', ''video_completed'', ''video_failed''}
   \<and> int (length (wp_videos progress_42)) \<le> video_index (mdata failed_at_5)
   \<and> int (length (scannedVideos viewing_42)) \<le> video_index (mdata failed_at_5)
   \<and> wp_dispatch (Some 42) failed_at_5 progress_42 = progress_42
   \<and> ed_onmessage failed_at_5 viewing_42 = viewing_42"
proof -
  have t: "mtype failed_at_5 \<in> {''video_started'', ''video_stage_update'', ''video_completed'', ''video_failed''}"
    by (simp add: failed_at_5_def)
  have w: "int (length (wp_videos progress_42)) \<le> video_index (mdata failed_at_5)"
    by (simp add: failed_at_5_def progress_42_def)
  have e: "int (length (scannedVideos viewing_42)) \<le> video_index (mdata failed_at_5)"
    by (simp add: failed_at_5_def viewing_42_def)
  show ?thesis
    using t w e out_of_range_video_event_is_noop [OF t w e, of "Some 42"] by simp
qed

text \<open>What \<^verbatim>\<open>WorkflowProgress\<close> does with a stage update of the viewed execution on an
  index in range, and with any event of another execution.\<close>

lemma wp_dispatch_stage_update:
  assumes "mtype msg = ''video_stage_update''"
    and "viewed = Some (execution_id (mdata msg))"
    and "0 \<le> video_index (mdata msg)" and "nat (video_index (mdata msg)) < length (wp_videos st)"
  shows "current_stage (wp_videos (wp_dispatch viewed msg st) ! nat (video_index (mdata msg))) =
           (if event_status (mdata msg) = ''running'' then Some (stage (mdata msg))
            else current_stage (wp_videos st ! nat (video_index (mdata msg))))"
    and "\<exists>al. stages (wp_videos (wp_dispatch viewed msg st) ! nat (video_index (mdata msg))) = Some al
          \<and> map_of al (stage (mdata msg)) = Some (event_status (mdata msg))"
  using assms
  by (auto simp: wp_dispatch_def Let_def map_idx_update_at update_at_def update_conv' split: option.splits)

lemma wp_dispatch_ignores_other_execution:
  assumes "viewed \<noteq> Some (execution_id (mdata msg))"
  shows "wp_dispatch viewed msg st = st"
  using assms by (auto simp: wp_dispatch_def Let_def)

text \<open>
  C5. \<^verbatim>\<open>WorkflowExecutionDetails\<close> on a \<^verbatim>\<open>video_stage_update\<close> for stage download with
  status completed, index 0: the entry's \<^verbatim>\<open>current_stage\<close> goes from burn to download although
  the status is not running, where \<^verbatim>\<open>WorkflowProgress\<close> leaves it at burn; and on an entry
  without a \<^verbatim>\<open>stages\<close> object the stage is not inserted.
\<close>

theorem ed_stage_update_sets_current_stage_always:
  "scannedVideos (ed_onmessage download_completed_event viewing_42) =
     [video_burning\<lparr>current_stage := Some ''download'',
        stages := Some [(''download'', ''completed''), (''burn'', ''running'')]\<rparr>]
   \<and> wp_videos (wp_dispatch (Some 42) download_completed_event progress_42) =
     [video_burning\<lparr>stages := Some [(''download'', ''completed''), (''burn'', ''running'')]\<rparr>]
   \<and> scannedVideos (ed_onmessage download_completed_event
        (viewing_42\<lparr>scannedVideos := [video_without_stages]\<rparr>)) =
     [video_without_stages\<lparr>current_stage := Some ''download''\<rparr>]"
  by (simp add: ed_onmessage_def wp_dispatch_def download_completed_event_def viewing_42_def
      progress_42_def update_at_def map_idx_def video_burning_def video_without_stages_def)

text \<open>
  C2. \<^verbatim>\<open>WorkflowExecutionDetails\<close>, showing execution 42, on a \<^verbatim>\<open>videos_scanned\<close> event of
  execution 99: its video list is replaced by the other execution's videos (the handler never
  reads \<^verbatim>\<open>execution_id\<close>), where \<^verbatim>\<open>WorkflowProgress\<close> ignores the event.
\<close>

theorem ed_applies_event_of_other_execution:
  "scannedVideos viewing_42 = [video_burning]
   \<and> scannedVideos (ed_onmessage scanned_for_99 viewing_42) = [video_without_stages]
   \<and> wp_dispatch (Some 42) scanned_for_99 progress_42 = progress_42"
  by (simp add: ed_onmessage_def wp_dispatch_def scanned_for_99_def viewing_42_def progress_42_def)

subsection \<open>The HTTP client's retry loop\<close>

declare request_loop.simps [simp del]








text \<open>
  C3. With \<^verbatim>\<open>retries = 2\<close> and a server that answers 404 with body
  \<^verbatim>\<open>{"detail":"not found"}\<close>: the error thrown for the 4xx response is caught by the loop's
  own \<^verbatim>\<open>catch\<close>, so the request is sent three times, with backoff delays of 1000 and 2000 ms,
  before the error with message \<^verbatim>\<open>not found\<close> reaches the caller.
\<close>

theorem request_retries_4xx:
  "request always_404 retry_twice =
     (Throws (Error ''not found''), [Fetched 5, Slept 1000, Fetched 5, Slept 2000, Fetched 5])"
  by (simp add: request_def maxRetries_def retry_twice_def request_loop.simps always_404_def
      settle_def handle_response_def not_found_404_def response_ok_def)

text \<open>
  C4. The result of a request does not depend on the \<^verbatim>\<open>timeout\<close> option. With a timeout of
  10000 ms, a \<^verbatim>\<open>fetch\<close> that resolves after 60000 ms makes the request return the payload, with
  no timeout error, and a \<^verbatim>\<open>fetch\<close> that never settles makes the request never return.
\<close>

theorem request_ignores_timeout:
  "request fetch (options\<lparr>timeout := t\<rparr>) = request fetch options
   \<and> request_timeout ten_second_timeout = 10000
   \<and> request slow_200 ten_second_timeout =
       (Returns (PJson (JObj [(''ok'', JBool True)])), [Fetched 60000])
   \<and> request never_settles ten_second_timeout = (NeverReturns, [])"
  by (simp add: request_def maxRetries_def ten_second_timeout_def request_timeout_def
      request_loop.simps slow_200_def never_settles_def settle_def handle_response_def
      ok_200_def response_ok_def)

subsection \<open>The hook's reconnect loop\<close>

lemma close_schedules_one_reconnect:
  assumes "hook_step (SocketCloses i) h = Some h'"
  shows "timers h' = timers h @ [(next_timer_id h, 3000)]"
    and "reconnectTimeoutRef h' = Some (next_timer_id h)"
    and "sockets h' = (sockets h)[i := CLOSED]"
  using assms
  by (auto simp: onclose_def schedule_reconnect_def setIsConnected_def RECONNECT_DELAY_def
      split: if_splits)

lemma timer_fire_connects:
  assumes "hook_step (TimerFires t False) h = Some h'"
  shows "sockets h' = sockets h @ [CONNECTING]"
  using assms by (auto simp: connect_def split: if_splits)

text \<open>
  C7. The component mounts, its socket opens, the component unmounts (the cleanup finds no
  pending timer and calls \<^verbatim>\<open>close()\<close> on the open socket), and the socket's close event
  arrives: \<^verbatim>\<open>onclose\<close> is still attached and schedules a reconnect after 3000 ms on the
  unmounted hook; when that timer fires, \<^verbatim>\<open>connect\<close> opens a second socket.
\<close>

theorem reconnect_scheduled_after_unmount:
  "hook_run unmount_while_open hook_initial =
     Some \<lparr>isConnected = True, mounted = False, sockets = [CLOSED], wsRef = Some 0,
           reconnectTimeoutRef = Some 1, timers = [(1, 3000)], next_timer_id = 2\<rparr>
   \<and> hook_run (unmount_while_open @ [TimerFires 1 False]) hook_initial =
     Some \<lparr>isConnected = True, mounted = False, sockets = [CLOSED, CONNECTING], wsRef = Some 1,
           reconnectTimeoutRef = Some 1, timers = [], next_timer_id = 2\<rparr>"
  by (simp add: unmount_while_open_def hook_initial_def connect_def onopen_def onclose_def
      cleanup_def socket_close_def clearTimeout_def schedule_reconnect_def setIsConnected_def
      RECONNECT_DELAY_def)

subsection \<open>The editor graph\<close>

lemma getIncomers_empty_iff:
  assumes "list_all (\<lambda>e. source e \<in> node_id ` set nds \<and> target e \<noteq> []) eds"
  shows "(getIncomers n nds eds = []) = list_all (\<lambda>e. target e \<noteq> node_id n) eds"
proof (cases "node_id n = []")
  case True
  then show ?thesis
    using assms by (auto simp: getIncomers_def list_all_iff)
next
  case False
  show ?thesis
  proof
    assume "getIncomers n nds eds = []"
    then have none: "\<forall>m\<in>set nds. node_id m \<notin> source ` {e \<in> set eds. target e = node_id n}"
      using False by (auto simp: getIncomers_def filter_empty_conv)
    have "\<forall>e\<in>set eds. target e \<noteq> node_id n"
    proof
      fix e assume e: "e \<in> set eds"
      show "target e \<noteq> node_id n"
      proof
        assume t: "target e = node_id n"
        from assms e obtain m where "m \<in> set nds" "node_id m = source e"
          by (auto simp: list_all_iff)
        with none e t show False by auto
      qed
    qed
    then show "list_all (\<lambda>e. target e \<noteq> node_id n) eds"
      by (simp add: list_all_iff)
  next
    assume "list_all (\<lambda>e. target e \<noteq> node_id n) eds"
    then have "filter (\<lambda>e. target e = node_id n) eds = []"
      by (auto simp: list_all_iff filter_empty_conv)
    then show "getIncomers n nds eds = []"
      using False by (simp add: getIncomers_def)
  qed
qed

lemma recompute_isStart_edges [simp]: "edges (recompute_isStart g) = edges g"
  by (simp add: recompute_isStart_def)

lemma recompute_isStart_map_ids:
  "map node_id (nodes (recompute_isStart g)) = map node_id (nodes g)"
  by (simp add: recompute_isStart_def Let_def comp_def)

lemma recompute_isStart_node_ids [simp]: "node_ids (recompute_isStart g) = node_ids g"
proof -
  have "node_ids h = set (map node_id (nodes h))" for h
    by (simp add: node_ids_def)
  then show ?thesis
    by (simp only: recompute_isStart_map_ids)
qed

lemma recompute_isStart_consistent:
  assumes "no_dangling_edges g" and "endpoints_nonempty g"
  shows "isStart_consistent (recompute_isStart g)"
proof -
  have a: "list_all (\<lambda>e. source e \<in> node_id ` set (nodes g) \<and> target e \<noteq> []) (edges g)"
    using assms by (auto simp: no_dangling_edges_def endpoints_nonempty_def node_ids_def list_all_iff)
  show ?thesis
    unfolding isStart_consistent_def recompute_isStart_edges
    by (auto simp: recompute_isStart_def list_all_iff Let_def getIncomers_empty_iff [OF a])
qed

lemma addEdge_set:
  "set (addEdge params eds) \<subseteq> insert \<lparr>edge_id = getEdgeId params, source = conn_source params,
                  target = conn_target params, sourceHandle = conn_sourceHandle params,
                  targetHandle = conn_targetHandle params\<rparr> (set eds)"
  by (auto simp: addEdge_def Let_def)

lemma addEdge_endpoints:
  assumes "e \<in> set (addEdge params eds)" and "e \<notin> set eds"
  shows "source e = conn_source params \<and> target e = conn_target params
       \<and> conn_source params \<noteq> [] \<and> conn_target params \<noteq> []"
  using assms by (auto simp: addEdge_def Let_def split: if_splits)

lemma apply_op_preserves:
  assumes "no_dangling_edges g" and "endpoints_nonempty g"
    and "\<And>params. op = Connect params \<Longrightarrow>
           conn_source params \<in> node_ids g \<and> conn_target params \<in> node_ids g"
  shows "no_dangling_edges (apply_op op g) \<and> endpoints_nonempty (apply_op op g)"
proof (cases op)
  case (Drop type pos now)
  then show ?thesis
    using assms(1,2)
    by (auto simp: onDrop_def no_dangling_edges_def endpoints_nonempty_def node_ids_def list_all_iff)
next
  case (PaletteAdd type now)
  then show ?thesis
    using assms(1,2)
    by (auto simp: palette_add_def no_dangling_edges_def endpoints_nonempty_def node_ids_def list_all_iff)
next
  case (Connect params)
  have p: "conn_source params \<in> node_ids g" "conn_target params \<in> node_ids g"
    using assms(3) Connect by simp_all
  have "\<forall>e\<in>set (addEdge params (edges g)).
          source e \<in> node_ids g \<and> target e \<in> node_ids g \<and> source e \<noteq> [] \<and> target e \<noteq> []"
  proof
    fix e assume e: "e \<in> set (addEdge params (edges g))"
    show "source e \<in> node_ids g \<and> target e \<in> node_ids g \<and> source e \<noteq> [] \<and> target e \<noteq> []"
    proof (cases "e \<in> set (edges g)")
      case True
      then show ?thesis
        using assms(1,2) by (simp add: no_dangling_edges_def endpoints_nonempty_def list_all_iff)
    next
      case False
      then show ?thesis
        using addEdge_endpoints [OF e False] p by simp
    qed
  qed
  then show ?thesis
    using Connect
    by (simp add: onConnect_def no_dangling_edges_def endpoints_nonempty_def node_ids_def list_all_iff)
next
  case (DeleteNode nodeId)
  then show ?thesis
    using assms(1,2)
    by (auto simp: handleDeleteNode_def no_dangling_edges_def endpoints_nonempty_def node_ids_def
        list_all_iff)
qed

lemma no_dangling_recompute:
  "no_dangling_edges (recompute_isStart g) = no_dangling_edges g"
  by (simp add: no_dangling_edges_def)

lemma endpoints_nonempty_recompute:
  "endpoints_nonempty (recompute_isStart g) = endpoints_nonempty g"
  by (simp add: endpoints_nonempty_def)

lemma editor_step_invariant:
  assumes "no_dangling_edges g" and "endpoints_nonempty g"
    and "\<And>params. op = Connect params \<Longrightarrow>
           conn_source params \<in> node_ids g \<and> conn_target params \<in> node_ids g"
  shows "no_dangling_edges (editor_step op g) \<and> endpoints_nonempty (editor_step op g)
       \<and> isStart_consistent (editor_step op g)"
  using apply_op_preserves [OF assms]
  by (simp add: editor_step_def no_dangling_recompute endpoints_nonempty_recompute
      recompute_isStart_consistent)

lemma connects_present_Cons:
  "connects_present (op # ops) g =
     ((\<forall>params. op = Connect params \<longrightarrow>
          conn_source params \<in> node_ids g \<and> conn_target params \<in> node_ids g)
      \<and> connects_present ops (editor_step op g))"
  by (cases op) simp_all

lemma run_ops_invariant:
  assumes "connects_present ops g" and "no_dangling_edges g" and "endpoints_nonempty g"
    and "isStart_consistent g"
  shows "no_dangling_edges (run_ops ops g) \<and> endpoints_nonempty (run_ops ops g)
       \<and> isStart_consistent (run_ops ops g)"
  using assms
proof (induction ops arbitrary: g)
  case Nil
  then show ?case by simp
next
  case (Cons op ops)
  have c: "\<And>params. op = Connect params \<Longrightarrow>
           conn_source params \<in> node_ids g \<and> conn_target params \<in> node_ids g"
    and rest: "connects_present ops (editor_step op g)"
    using Cons.prems(1) by (simp_all add: connects_present_Cons)
  have step: "no_dangling_edges (editor_step op g) \<and> endpoints_nonempty (editor_step op g)
       \<and> isStart_consistent (editor_step op g)"
    using editor_step_invariant [OF Cons.prems(2,3) c] by simp
  show ?case
    using Cons.IH [OF rest] step by simp
qed

lemma getIncomers_ids:
  assumes "map node_id nds' = map node_id nds" and "node_id n' = node_id n"
  shows "length (getIncomers n' nds' eds) = length (getIncomers n nds eds)"
proof -
  have "length (filter P (map node_id nds')) = length (filter P (map node_id nds))" for P
    using assms(1) by simp
  then have "length (filter (\<lambda>m. P (node_id m)) nds') = length (filter (\<lambda>m. P (node_id m)) nds)" for P
    by (simp add: filter_map comp_def)
  from this [of "\<lambda>i. i \<in> source ` {x \<in> set eds. target x = node_id n}"] show ?thesis
    using assms(2) by (simp add: getIncomers_def Let_def)
qed

lemma recompute_isStart_idem: "recompute_isStart (recompute_isStart g) = recompute_isStart g"
proof -
  let ?f = "\<lambda>g n. let incoming = getIncomers n (nodes g) (edges g);
               start = (length incoming = 0)
           in if isStart n \<noteq> Some start then n\<lparr>isStart := Some start\<rparr> else n"
  note ids = recompute_isStart_map_ids [of g]
  have "map (?f (recompute_isStart g)) (nodes (recompute_isStart g)) = nodes (recompute_isStart g)"
  proof (rule map_idI)
    fix n' assume "n' \<in> set (nodes (recompute_isStart g))"
    then obtain n where n: "n \<in> set (nodes g)" "n' = ?f g n"
      by (auto simp: recompute_isStart_def)
    have id: "node_id n' = node_id n" using n(2) by (simp add: Let_def)
    have st: "isStart n' = Some (length (getIncomers n (nodes g) (edges g)) = 0)"
      using n(2) by (simp add: Let_def)
    have "length (getIncomers n' (nodes (recompute_isStart g)) (edges (recompute_isStart g)))
            = length (getIncomers n (nodes g) (edges g))"
      using getIncomers_ids [OF ids id] by simp
    then have "(getIncomers n' (nodes (recompute_isStart g)) (edges (recompute_isStart g)) = [])
            = (getIncomers n (nodes g) (edges g) = [])"
      by (metis length_0_conv)
    then show "?f (recompute_isStart g) n' = n'"
      using st by (simp add: Let_def)
  qed
  then show ?thesis
    by (simp add: recompute_isStart_def [of "recompute_isStart g"])
qed

lemma handleDeleteNode_cascade:
  "list_all (\<lambda>e. source e \<noteq> nodeId \<and> target e \<noteq> nodeId) (edges (handleDeleteNode nodeId g))
   \<and> nodeId \<notin> node_ids (handleDeleteNode nodeId g)"
  by (auto simp: handleDeleteNode_def list_all_iff node_ids_def)

text \<open>
  C8 (as amended). Starting from the empty editor, after any sequence of node additions
  (drop or palette), connections and node deletions in which every connection joins two nodes
  present at that moment, each followed by the recomputation effect, every edge's source and
  target are ids of present nodes, every node's \<^verbatim>\<open>isStart\<close> flag says whether no edge has
  the node as target, and deleting a node leaves no edge that starts or ends at it.
\<close>

theorem editor_graph_invariant:
  assumes "connects_present ops initial_graph"
  shows "no_dangling_edges (run_ops ops initial_graph)
       \<and> isStart_consistent (run_ops ops initial_graph)
       \<and> list_all (\<lambda>e. source e \<noteq> nodeId \<and> target e \<noteq> nodeId)
            (edges (handleDeleteNode nodeId (run_ops ops initial_graph)))"
proof -
  have "no_dangling_edges initial_graph" "endpoints_nonempty initial_graph"
    "isStart_consistent initial_graph"
    by (simp_all add: no_dangling_edges_def endpoints_nonempty_def isStart_consistent_def
        initial_graph_def)
  then show ?thesis
    using run_ops_invariant [OF assms] handleDeleteNode_cascade by simp
qed

theorem editor_graph_invariant_witness:
  "connects_present scan_then_download initial_graph
   \<and> no_dangling_edges (run_ops scan_then_download initial_graph)
   \<and> isStart_consistent (run_ops scan_then_download initial_graph)
   \<and> list_all (\<lambda>e. source e \<noteq> ''download-2'' \<and> target e \<noteq> ''download-2'')
        (edges (handleDeleteNode ''download-2'' (run_ops scan_then_download initial_graph)))"
proof -
  have c: "connects_present scan_then_download initial_graph"
    by (simp add: scan_then_download_def initial_graph_def editor_step_def palette_add_def
        onDrop_def onConnect_def handleDeleteNode_def recompute_isStart_def node_ids_def
        newNode_def show_nat.simps digit_char_def addEdge_def connectionExists_def
        getIncomers_def)
  show ?thesis
    using c editor_graph_invariant [OF c, of "''download-2''"] by simp
qed

text \<open>\<^verbatim>\<open>onConnect\<close> does not look at the nodes: a connection from \<^verbatim>\<open>a\<close> to \<^verbatim>\<open>b\<close> on the
  empty editor leaves an edge whose endpoints are no nodes.\<close>

theorem onConnect_absent_nodes_counterexample:
  "\<not> no_dangling_edges (run_ops [Connect connect_a_b] initial_graph)"
  by (simp add: initial_graph_def editor_step_def onConnect_def addEdge_def connect_a_b_def
      connectionExists_def recompute_isStart_def no_dangling_edges_def node_ids_def)

end
